theory Spec2Isabelle
  imports Complex_Main "HOL-Library.AList"
begin

section \<open>Values, exceptions and the log\<close>

text \<open>
  The documents the program reads (YAML, JSON, TOML) arrive as Python objects. The model
  keeps the kinds that decide a branch of the code: the null value, booleans, integers,
  strings, lists and dictionaries. Floats and dates, which such a document may also
  hold, are left out: the code has no branch of their own for them. A dictionary is an
  association list in insertion order, looked up with \<open>map_of\<close>.
\<close>

datatype pyobj =
    PNone
  | PBool bool
  | PInt int
  | PStr string
  | PList "pyobj list"
  | PDict "(string \<times> pyobj) list"

text \<open>Python's truth value of an object, as \<open>if x:\<close>, \<open>not x\<close> and \<open>x or y\<close> test it.\<close>

fun truthy :: "pyobj \<Rightarrow> bool" where
  "truthy PNone = False"
| "truthy (PBool b) = b"
| "truthy (PInt i) = (i \<noteq> 0)"
| "truthy (PStr s) = (s \<noteq> [])"
| "truthy (PList xs) = (xs \<noteq> [])"
| "truthy (PDict d) = (d \<noteq> [])"

datatype exn =
    AttributeError
  | TypeError
  | OSError
  | KeyError
  | FileNotFoundError
  | YAMLError

datatype level = Debug | Info | Warning | Error

type_synonym log = "(level \<times> string) list"

text \<open>\<open>obj.get(key, default)\<close>: only a dictionary has the method.\<close>

fun py_get :: "pyobj \<Rightarrow> string \<Rightarrow> pyobj \<Rightarrow> exn + pyobj" where
  "py_get (PDict d) k dflt = Inr (case map_of d k of None \<Rightarrow> dflt | Some v \<Rightarrow> v)"
| "py_get _ k dflt = Inl AttributeError"

section \<open>network.py: the region prober\<close>

datatype NetworkLocation = CHINA | GLOBAL | UNKNOWN

fun location_value :: "NetworkLocation \<Rightarrow> string" where
  "location_value CHINA = ''china''"
| "location_value GLOBAL = ''global''"
| "location_value UNKNOWN = ''unknown''"

text \<open>
  What \<open>future.result()\<close> gives for one probe: the pair returned by
  \<open>_http_head_fast\<close>, or an exception, which \<open>_count_successful_domains\<close> catches.
  Python's true division of two integers is modelled by exact rational division.
\<close>

datatype probe = Returned bool rat | Raised

record probe_summary =
  success_rate :: rat
  avg_response_time :: rat

text \<open>The loop of \<open>_count_successful_domains\<close> over the completed futures, with its two
  accumulators \<open>successful\<close> and \<open>total_time\<close>.\<close>

fun tally :: "probe list \<Rightarrow> nat \<Rightarrow> rat \<Rightarrow> nat \<times> rat" where
  "tally [] successful total_time = (successful, total_time)"
| "tally (Returned success response_time # fs) successful total_time =
     (if success then tally fs (successful + 1) (total_time + response_time)
      else tally fs successful total_time)"
| "tally (Raised # fs) successful total_time = tally fs successful total_time"

definition count_successful_domains :: "probe list \<Rightarrow> probe_summary" where
  "count_successful_domains futures =
     (let total = length futures;
          (successful, total_time) = tally futures 0 0;
          avg_time = (if successful > 0 then total_time / of_nat successful else 0);
          rate = (if total > 0 then of_nat successful / of_nat total else 0)
      in \<lparr>success_rate = rate, avg_response_time = avg_time\<rparr>)"

text \<open>Lines 53 to 62 of \<open>check_network_location\<close>: the decision on the two summaries,
  with the message it logs.\<close>

definition classify :: "probe_summary \<Rightarrow> probe_summary \<Rightarrow> NetworkLocation \<times> log" where
  "classify china_results global_results =
     (if success_rate global_results > 6 / 10
      then (GLOBAL, [(Info, ''clearly a global network'')])
      else if success_rate china_results > 5 / 10
      then (CHINA, [(Info, ''china network detected'')])
      else (CHINA, [(Info, ''network unclear, defaulting to china'')]))"

definition check_network_location :: "probe list \<Rightarrow> probe list \<Rightarrow> NetworkLocation \<times> log" where
  "check_network_location china_futures global_futures =
     (let china_results = count_successful_domains china_futures;
          global_results = count_successful_domains global_futures;
          (location, msgs) = classify china_results global_results
      in (location, (Info, ''Network detection results'') # msgs))"

text \<open>A probe counts as a success when it returned with its flag set.\<close>

definition succeeded :: "probe \<Rightarrow> bool" where
  "succeeded p = (case p of Returned ok _ \<Rightarrow> ok | Raised \<Rightarrow> False)"

section \<open>config_loader.py: the config store\<close>

text \<open>
  The mirror-source file as \<open>ConfigManager\<close> meets it: whether the path exists (the test
  of \<open>get_config_path\<close>), and what opening the file and \<open>yaml.safe_load\<close> give, an
  exception or the loaded document.
\<close>

record config_source =
  path_exists :: bool
  read_result :: "exn + pyobj"

text \<open>\<open>ConfigManager._load_config\<close>. An exception that the handler does not name
  leaves the function.\<close>

definition ConfigManager_load_config :: "config_source \<Rightarrow> (exn + pyobj) \<times> log" where
  "ConfigManager_load_config src =
     (if \<not> path_exists src
      then (Inr (PDict []), [(Warning, ''No mirrors.yaml found, creating empty config'')])
      else (case read_result src of
              Inr doc \<Rightarrow>
                (Inr (if truthy doc then doc else PDict []), [(Debug, ''Loaded config'')])
            | Inl e \<Rightarrow>
                (if e = FileNotFoundError \<or> e = YAMLError
                 then (Inr (PDict []), [(Error, ''Error loading config'')])
                 else (Inl e, []))))"

text \<open>\<open>get_default_mirror\<close>, on the configuration that \<open>load_config()\<close> hands out. The
  inner \<open>get\<close> is an argument of the outer one, so Python evaluates it first.\<close>

definition get_default_mirror ::
  "pyobj \<Rightarrow> string \<Rightarrow> NetworkLocation \<Rightarrow> pyobj \<Rightarrow> exn + pyobj" where
  "get_default_mirror config mirror_type location default_value =
     (case py_get config mirror_type (PDict []) of
        Inl e \<Rightarrow> Inl e
      | Inr mirrors \<Rightarrow>
          (case py_get mirrors (location_value GLOBAL) default_value of
             Inl e \<Rightarrow> Inl e
           | Inr fallback \<Rightarrow> py_get mirrors (location_value location) fallback))"


definition get_default_docker_mirror :: "pyobj \<Rightarrow> NetworkLocation \<Rightarrow> exn + pyobj" where
  "get_default_docker_mirror config location =
     get_default_mirror config ''default_docker_mirror'' location (PStr [])"

text \<open>The shape of a configuration in the data model: a dictionary in which the entry of
  a mirror kind, when there is one, is a dictionary from regions to values. \<open>table_of\<close>
  is that dictionary, empty when the kind has no entry.\<close>

fun table_of :: "pyobj \<Rightarrow> string \<Rightarrow> (string \<times> pyobj) list option" where
  "table_of (PDict c) kind =
     (case map_of c kind of
        None \<Rightarrow> Some []
      | Some (PDict m) \<Rightarrow> Some m
      | Some _ \<Rightarrow> None)"
| "table_of _ kind = None"

section \<open>mirror_manager.py: the mirror writers\<close>

text \<open>
  The part of the file system the two writers touch. For each tool: whether its
  configuration directory can be made (\<open>mkdir\<close> with \<open>exist_ok\<close>), the configuration
  file, and whether the file can be opened for writing. The registry file is read by
  \<open>json.load\<close> and written by \<open>json.dump\<close>, so its content is the document itself, or
  \<open>Unreadable\<close> when opening or decoding it raises. The package-index file is written
  by the program's own loop, so its content is text. A write that cannot be opened
  leaves the file as it was.
\<close>

datatype docker_file = NoFile | Unreadable | Json pyobj

record world =
  uv_dir_ok :: bool
  uv_toml :: "string option"
  uv_writable :: bool
  docker_dir_ok :: bool
  docker_config :: docker_file
  docker_writable :: bool

subsection \<open>Python's operations on the loaded registry document\<close>

primrec substring_of :: "string \<Rightarrow> string \<Rightarrow> bool" where
  "substring_of k [] = (k = [])"
| "substring_of k (c # s) = (take (length k) (c # s) = k \<or> substring_of k s)"

text \<open>\<open>key in obj\<close>: a key of a dictionary, an element of a list, a substring of a
  string; any other object is not iterable.\<close>

fun py_contains :: "string \<Rightarrow> pyobj \<Rightarrow> exn + bool" where
  "py_contains k (PDict d) = Inr (map_of d k \<noteq> None)"
| "py_contains k (PList xs) = Inr (PStr k \<in> set xs)"
| "py_contains k (PStr s) = Inr (substring_of k s)"
| "py_contains k _ = Inl TypeError"

text \<open>\<open>del obj[key]\<close> and \<open>obj[key] = value\<close> for a string key.\<close>

fun py_delitem :: "string \<Rightarrow> pyobj \<Rightarrow> exn + pyobj" where
  "py_delitem k (PDict d) =
     (if map_of d k = None then Inl KeyError else Inr (PDict (AList.delete k d)))"
| "py_delitem k _ = Inl TypeError"

fun py_setitem :: "string \<Rightarrow> pyobj \<Rightarrow> pyobj \<Rightarrow> exn + pyobj" where
  "py_setitem k v (PDict d) = Inr (PDict (AList.update k v d))"
| "py_setitem k v _ = Inl TypeError"

subsection \<open>\<open>MirrorManager.update_docker_mirror\<close>\<close>

text \<open>Lines 142 to 148: the existing configuration, empty when there is no file, and
  empty with a warning when reading it raises.\<close>

definition read_docker_config :: "docker_file \<Rightarrow> pyobj \<times> log" where
  "read_docker_config f =
     (case f of
        NoFile \<Rightarrow> (PDict [], [])
      | Unreadable \<Rightarrow> (PDict [], [(Warning, ''Failed to load existing Docker config'')])
      | Json doc \<Rightarrow> (doc, []))"

text \<open>Lines 151 to 161: the update of the loaded document.\<close>

definition set_registry_mirrors :: "pyobj \<Rightarrow> pyobj \<Rightarrow> (exn + pyobj) \<times> log" where
  "set_registry_mirrors default_mirror config_data =
     (if \<not> truthy default_mirror
      then (case py_contains ''registry-mirrors'' config_data of
              Inl e \<Rightarrow> (Inl e, [])
            | Inr present \<Rightarrow>
                (if present
                 then (case py_delitem ''registry-mirrors'' config_data of
                         Inl e \<Rightarrow> (Inl e, [])
                       | Inr c \<Rightarrow>
                           (Inr c, [(Info, ''Removed Docker registry mirrors configuration'')]))
                 else (Inr config_data, [])))
      else (case py_setitem ''registry-mirrors'' (PList [default_mirror]) config_data of
              Inl e \<Rightarrow> (Inl e, [])
            | Inr c \<Rightarrow> (Inr c, [(Info, ''Updated Docker registry mirror'')])))"

text \<open>The guarded body of the function: \<open>Inl\<close> is an exception that reaches the
  handler of \<open>except Exception\<close>.\<close>

definition docker_body ::
  "pyobj \<Rightarrow> NetworkLocation \<Rightarrow> world \<Rightarrow> (exn + unit) \<times> world \<times> log" where
  "docker_body config location w =
     (if \<not> docker_dir_ok w then (Inl OSError, w, [])
      else (case get_default_docker_mirror config location of
              Inl e \<Rightarrow> (Inl e, w, [])
            | Inr default_mirror \<Rightarrow>
                (let (config_data, warn) = read_docker_config (docker_config w) in
                 (case set_registry_mirrors default_mirror config_data of
                    (Inl e, msgs) \<Rightarrow> (Inl e, w, warn @ msgs)
                  | (Inr c, msgs) \<Rightarrow>
                      (if \<not> docker_writable w then (Inl OSError, w, warn @ msgs)
                       else (Inr (), w\<lparr>docker_config := Json c\<rparr>, warn @ msgs))))))"

definition update_docker_mirror ::
  "pyobj \<Rightarrow> NetworkLocation \<Rightarrow> world \<Rightarrow> bool \<times> world \<times> log" where
  "update_docker_mirror config location w =
     (case docker_body config location w of
        (Inr u, w', msgs) \<Rightarrow> (True, w', msgs)
      | (Inl e, w', msgs) \<Rightarrow> (False, w', msgs @ [(Error, ''Failed to update Docker mirror'')]))"

text \<open>The value a document holds under a key; a document that is not a dictionary holds
  none.\<close>

definition value_at :: "pyobj \<Rightarrow> string \<Rightarrow> pyobj option" where
  "value_at doc k = (case doc of PDict d \<Rightarrow> map_of d k | _ \<Rightarrow> None)"

subsection \<open>\<open>MirrorManager.update_uv_mirror\<close>\<close>

text \<open>
  Two library functions are parameters of the model: \<open>load\<close> is \<open>tomllib.load\<close> on the
  content of the file, \<open>None\<close> when opening or parsing raises, otherwise the top-level
  table; \<open>str\<close> is Python's \<open>str()\<close> on a value that is neither a boolean nor a
  string.
\<close>



text \<open>The loop of lines 89 to 93 over the entries: the first entry whose \<open>default\<close> is
  true in Python's sense gets the mirror as its \<open>url\<close>, and the loop stops. \<open>None\<close> is
  the loop ending with \<open>default_index_exists\<close> still false. An entry that is not a
  dictionary has no \<open>get\<close>.\<close>

fun set_default_url :: "pyobj \<Rightarrow> pyobj list \<Rightarrow> exn + pyobj list option" where
  "set_default_url m [] = Inr None"
| "set_default_url m (e # es) =
     (case py_get e ''default'' (PBool False) of
        Inl x \<Rightarrow> Inl x
      | Inr flag \<Rightarrow>
          (if truthy flag
           then (case py_setitem ''url'' m e of
                   Inl x \<Rightarrow> Inl x
                 | Inr e' \<Rightarrow> Inr (Some (e' # es)))
           else (case set_default_url m es of
                   Inl x \<Rightarrow> Inl x
                 | Inr None \<Rightarrow> Inr None
                 | Inr (Some es') \<Rightarrow> Inr (Some (e # es')))))"


text \<open>Lines 105 to 115: the text written for the entries. The header of an entry is
  written before its items are asked for, so an entry that is not a dictionary leaves
  the text so far in the file and raises.\<close>

definition nl :: string where
  "nl = [CHR 0x0A]"

definition dq :: string where
  "dq = [CHR 0x22]"

definition render_item :: "(pyobj \<Rightarrow> string) \<Rightarrow> string \<times> pyobj \<Rightarrow> string" where
  "render_item str kv =
     (case kv of (key, v) \<Rightarrow>
        (case v of
           PBool b \<Rightarrow> key @ '' = '' @ (if b then ''True'' else ''False'') @ nl
         | PInt i \<Rightarrow> key @ '' = '' @ str v @ nl
         | PStr s \<Rightarrow> key @ '' = '' @ dq @ s @ dq @ nl
         | _ \<Rightarrow> key @ '' = '' @ dq @ str v @ dq @ nl))"

fun render_index :: "(pyobj \<Rightarrow> string) \<Rightarrow> pyobj list \<Rightarrow> string \<times> exn option" where
  "render_index str [] = ([], None)"
| "render_index str (e # es) =
     (case e of
        PDict d \<Rightarrow>
          (case render_index str es of
             (rest, r) \<Rightarrow>
               (''[[index]]'' @ nl @ concat (map (render_item str) d)
                  @ (if es \<noteq> [] then nl else []) @ rest, r))
      | _ \<Rightarrow> (''[[index]]'' @ nl, Some AttributeError))"





text \<open>An entry is flagged as the default when it is a dictionary whose \<open>default\<close> is
  true in Python's sense.\<close>

definition flagged :: "pyobj \<Rightarrow> bool" where
  "flagged e =
     (case e of
        PDict d \<Rightarrow> truthy (case map_of d ''default'' of None \<Rightarrow> PBool False | Some v \<Rightarrow> v)
      | _ \<Rightarrow> False)"


subsection \<open>\<open>MirrorManager.update_all_mirrors\<close>\<close>


text \<open>Worlds and a configuration for the concrete runs below.\<close>

definition example_config :: pyobj where
  "example_config =
     PDict [(''default_pip_mirror'',
               PDict [(''china'', PStr ''https://pypi.tuna.tsinghua.edu.cn/simple''),
                      (''global'', PStr ''https://pypi.org/simple'')]),
            (''default_docker_mirror'',
               PDict [(''china'', PStr ''https://docker.1ms.run''),
                      (''global'', PStr [])])]"

definition example_world :: world where
  "example_world =
     \<lparr>uv_dir_ok = True, uv_toml = None, uv_writable = True,
      docker_dir_ok = True,
      docker_config =
        Json (PDict [(''experimental'', PBool True),
                     (''registry-mirrors'',
                        PList [PStr ''https://a.example'', PStr ''https://b.example''])]),
      docker_writable = True\<rparr>"




definition example_merged :: "pyobj list" where
  "example_merged =
     [PDict [(''name'', PStr ''extra''), (''url'', PStr ''https://extra.example/simple'')],
      PDict [(''url'', PStr ''https://pypi.tuna.tsinghua.edu.cn/simple''), (''default'', PBool True)]]"

section \<open>The prober's properties\<close>

lemma tally_bound: "fst (tally fs s t) \<le> s + length fs"
  by (induction fs s t rule: tally.induct) auto

lemma tally_mono: "s \<le> fst (tally fs s t)"
  by (induction fs s t rule: tally.induct) (auto intro: le_trans)

lemma tally_none: "\<forall>p \<in> set fs. \<not> succeeded p \<Longrightarrow> tally fs s t = (s, t)"
  by (induction fs s t rule: tally.induct) (auto simp: succeeded_def)

text \<open>
  Claim C1. The location is GLOBAL exactly when the success rate of the global set is
  strictly above 0.6; in every other case it is CHINA, whatever the success rate of the
  in-region set is; UNKNOWN is never the result.
\<close>

theorem classify_bias_rule:
  "(fst (classify china_results global_results) = GLOBAL) = (6 / 10 < success_rate global_results)
   \<and> (fst (classify china_results global_results) = CHINA) = (\<not> 6 / 10 < success_rate global_results)
   \<and> fst (classify china_results global_results) \<noteq> UNKNOWN
   \<and> fst (check_network_location china_futures global_futures)
       = fst (classify (count_successful_domains china_futures)
                       (count_successful_domains global_futures))"
  by (simp add: classify_def check_network_location_def Let_def split: prod.splits)

text \<open>
  Claim C9. The success rate of a summary lies between 0 and 1; when no probe of the
  set succeeded, the success rate and the average response time are both 0, and this
  includes the empty set of probes.
\<close>

theorem success_rate_range:
  "0 \<le> success_rate (count_successful_domains fs)
   \<and> success_rate (count_successful_domains fs) \<le> 1
   \<and> ((\<forall>p \<in> set fs. \<not> succeeded p) \<longrightarrow>
        success_rate (count_successful_domains fs) = 0
        \<and> avg_response_time (count_successful_domains fs) = 0)
   \<and> count_successful_domains [] = \<lparr>success_rate = 0, avg_response_time = 0\<rparr>"
proof -
  obtain s t where st: "tally fs 0 0 = (s, t)" by (cases "tally fs 0 0")
  have "s \<le> length fs" using tally_bound [of fs 0 0] st by simp
  then have le1: "(of_nat s :: rat) \<le> of_nat (length fs)" by simp
  have r: "success_rate (count_successful_domains fs)
           = (if length fs > 0 then of_nat s / of_nat (length fs) else 0)"
    by (simp add: count_successful_domains_def st Let_def)
  have lo: "0 \<le> success_rate (count_successful_domains fs)" by (simp add: r)
  have hi: "success_rate (count_successful_domains fs) \<le> 1"
    using le1 by (simp add: r divide_le_eq_1)
  have none: "(\<forall>p \<in> set fs. \<not> succeeded p) \<longrightarrow>
        success_rate (count_successful_domains fs) = 0
        \<and> avg_response_time (count_successful_domains fs) = 0"
  proof
    assume "\<forall>p \<in> set fs. \<not> succeeded p"
    then have "tally fs 0 0 = (0, 0)" by (rule tally_none)
    then show "success_rate (count_successful_domains fs) = 0
        \<and> avg_response_time (count_successful_domains fs) = 0"
      by (simp add: count_successful_domains_def Let_def)
  qed
  have empty: "count_successful_domains [] = \<lparr>success_rate = 0, avg_response_time = 0\<rparr>"
    by (simp add: count_successful_domains_def Let_def)
  from lo hi none empty show ?thesis by blast
qed

theorem success_rate_range_witness:
  "list_all (\<lambda>p. \<not> succeeded p) [Returned False 0, Raised]
   \<and> success_rate (count_successful_domains [Returned False 0, Raised]) = 0
   \<and> avg_response_time (count_successful_domains [Returned False 0, Raised]) = 0"
  using success_rate_range [of "[Returned False 0, Raised]"]
  by (simp add: succeeded_def)

section \<open>The config store's properties\<close>

text \<open>
  Claim C2, as the specification states it, fails: when the file exists and is not valid
  YAML, loading does not fail, it returns the empty configuration.
\<close>

theorem load_malformed_counterexample:
  "fst (ConfigManager_load_config \<lparr>path_exists = True, read_result = Inl YAMLError\<rparr>)
     = Inr (PDict [])"
  by (simp add: ConfigManager_load_config_def)

text \<open>
  Claim C2, amended. Loading returns the empty configuration when the file is absent
  (with a warning) and also when the file exists but is malformed (the YAML error is
  logged as an error); it raises exactly when the file exists and reading it raises an
  exception other than FileNotFoundError and a YAML error.
\<close>

theorem load_config_degrades:
  "(\<not> path_exists src \<longrightarrow>
      ConfigManager_load_config src
        = (Inr (PDict []), [(Warning, ''No mirrors.yaml found, creating empty config'')]))
   \<and> (path_exists src \<and> read_result src = Inl YAMLError \<longrightarrow>
      ConfigManager_load_config src = (Inr (PDict []), [(Error, ''Error loading config'')]))
   \<and> (isl (fst (ConfigManager_load_config src))
        = (path_exists src
           \<and> (\<exists>e. read_result src = Inl e \<and> e \<noteq> FileNotFoundError \<and> e \<noteq> YAMLError)))"
  by (auto simp: ConfigManager_load_config_def split: sum.splits)

theorem load_config_degrades_witness:
  "ConfigManager_load_config \<lparr>path_exists = False, read_result = Inl FileNotFoundError\<rparr>
     = (Inr (PDict []), [(Warning, ''No mirrors.yaml found, creating empty config'')])
   \<and> ConfigManager_load_config \<lparr>path_exists = True, read_result = Inl YAMLError\<rparr>
     = (Inr (PDict []), [(Error, ''Error loading config'')])
   \<and> isl (fst (ConfigManager_load_config \<lparr>path_exists = True, read_result = Inl OSError\<rparr>))"
  using load_config_degrades [of "\<lparr>path_exists = False, read_result = Inl FileNotFoundError\<rparr>"]
    load_config_degrades [of "\<lparr>path_exists = True, read_result = Inl YAMLError\<rparr>"]
    load_config_degrades [of "\<lparr>path_exists = True, read_result = Inl OSError\<rparr>"]
  by simp

text \<open>
  Claim C3. On a configuration of the data model's shape, the default mirror of a kind
  for a region is the region's entry when there is one, otherwise the entry of the
  global region when there is one, otherwise the empty string.
\<close>

theorem get_default_mirror_fallback:
  assumes "table_of config kind = Some m"
  shows "get_default_mirror config kind region (PStr [])
           = Inr (case map_of m (location_value region) of
                    Some v \<Rightarrow> v
                  | None \<Rightarrow> (case map_of m ''global'' of Some v \<Rightarrow> v | None \<Rightarrow> PStr []))"
proof (cases config)
  case (PDict c)
  show ?thesis
  proof (cases "map_of c kind")
    case None
    with PDict assms have "m = []" by simp
    with PDict None show ?thesis by (simp add: get_default_mirror_def)
  next
    case (Some t)
    with PDict assms have "t = PDict m" by (cases t) simp_all
    with PDict Some show ?thesis
      by (simp add: get_default_mirror_def split: option.splits)
  qed
qed (use assms in simp_all)

theorem get_default_mirror_fallback_witness:
  "table_of (PDict [(''default_pip_mirror'', PDict [(''global'', PStr ''https://pypi.org/simple'')])])
      ''default_pip_mirror'' = Some [(''global'', PStr ''https://pypi.org/simple'')]
   \<and> get_default_mirror
        (PDict [(''default_pip_mirror'', PDict [(''global'', PStr ''https://pypi.org/simple'')])])
        ''default_pip_mirror'' CHINA (PStr []) = Inr (PStr ''https://pypi.org/simple'')"
proof -
  have t: "table_of (PDict [(''default_pip_mirror'', PDict [(''global'', PStr ''https://pypi.org/simple'')])])
      ''default_pip_mirror'' = Some [(''global'', PStr ''https://pypi.org/simple'')]"
    by simp
  show ?thesis
    using t get_default_mirror_fallback [OF t, of CHINA] by simp
qed

text \<open>Outside that shape the lookup raises: a kind whose entry is a plain string has no
  \<open>get\<close> method.\<close>

lemma get_default_mirror_ill_shaped:
  "get_default_mirror (PDict [(''default_pip_mirror'', PStr ''x'')]) ''default_pip_mirror'' CHINA
     (PStr []) = Inl AttributeError"
  by (simp add: get_default_mirror_def)

section \<open>The registry writer's properties\<close>

lemma delete_absent: "map_of d k = None \<Longrightarrow> AList.delete k d = d"
  by (induction d) (auto split: if_splits)

lemma set_registry_mirrors_dict:
  "fst (set_registry_mirrors m (PDict d))
     = Inr (PDict (if truthy m then AList.update ''registry-mirrors'' (PList [m]) d
                   else AList.delete ''registry-mirrors'' d))"
  by (simp add: set_registry_mirrors_def delete_absent)

lemma set_registry_mirrors_frame:
  assumes "fst (set_registry_mirrors m doc) = Inr doc'" and "k \<noteq> ''registry-mirrors''"
  shows "value_at doc' k = value_at doc k"
proof (cases doc)
  case (PDict d)
  with assms(1) have "doc' = PDict (if truthy m then AList.update ''registry-mirrors'' (PList [m]) d
                   else AList.delete ''registry-mirrors'' d)"
    using set_registry_mirrors_dict [of m d] by simp
  with PDict assms(2) show ?thesis
    by (simp add: value_at_def update_conv' delete_conv')
next
  case PNone
  with assms(1) show ?thesis by (simp add: set_registry_mirrors_def split: if_splits)
next
  case (PBool b)
  with assms(1) show ?thesis by (simp add: set_registry_mirrors_def split: if_splits)
next
  case (PInt i)
  with assms(1) show ?thesis by (simp add: set_registry_mirrors_def split: if_splits)
next
  case (PStr s)
  with assms(1) show ?thesis by (simp add: set_registry_mirrors_def split: if_splits)
next
  case (PList xs)
  with assms(1) show ?thesis by (simp add: set_registry_mirrors_def split: if_splits)
qed

lemma docker_body_world:
  assumes "docker_body config location w = (r, w', msgs)"
  shows "(isl r \<and> w' = w) \<or> (\<exists>m c. get_default_docker_mirror config location = Inr m
            \<and> fst (set_registry_mirrors m (fst (read_docker_config (docker_config w)))) = Inr c
            \<and> docker_dir_ok w \<and> docker_writable w
            \<and> r = Inr () \<and> w' = w\<lparr>docker_config := Json c\<rparr>)"
proof (cases "docker_dir_ok w")
  case False
  with assms show ?thesis by (auto simp: docker_body_def)
next
  case ok: True
  show ?thesis
  proof (cases "get_default_docker_mirror config location")
    case (Inl e)
    with ok assms show ?thesis by (auto simp: docker_body_def)
  next
    case (Inr m)
    obtain data warn where rd: "read_docker_config (docker_config w) = (data, warn)"
      by (cases "read_docker_config (docker_config w)")
    obtain res l where sr: "set_registry_mirrors m data = (res, l)"
      by (cases "set_registry_mirrors m data")
    show ?thesis
    proof (cases res)
      case (Inl e)
      with ok Inr rd sr assms show ?thesis by (auto simp: docker_body_def)
    next
      case c: (Inr c)
      with ok Inr rd sr assms show ?thesis
        by (cases "docker_writable w") (auto simp: docker_body_def)
    qed
  qed
qed


lemma update_docker_mirror_world:
  assumes "update_docker_mirror config location w = (ok, w', msgs)"
  shows "(\<not> ok \<and> w' = w) \<or> (\<exists>m c. get_default_docker_mirror config location = Inr m
            \<and> fst (set_registry_mirrors m (fst (read_docker_config (docker_config w)))) = Inr c
            \<and> docker_dir_ok w \<and> docker_writable w
            \<and> ok \<and> w' = w\<lparr>docker_config := Json c\<rparr>)"
proof -
  obtain r w1 l where b: "docker_body config location w = (r, w1, l)"
    by (cases "docker_body config location w")
  from docker_body_world [OF b] b assms show ?thesis
    by (cases r) (auto simp: update_docker_mirror_def)
qed

lemma update_docker_mirror_succeeds:
  assumes "docker_dir_ok w" and "docker_writable w"
    and "get_default_docker_mirror config location = Inr m"
    and "set_registry_mirrors m (fst (read_docker_config (docker_config w))) = (Inr c, l)"
  shows "update_docker_mirror config location w
           = (True, w\<lparr>docker_config := Json c\<rparr>, snd (read_docker_config (docker_config w)) @ l)"
proof -
  obtain data warn where rd: "read_docker_config (docker_config w) = (data, warn)"
    by (cases "read_docker_config (docker_config w)")
  with assms(4) have "set_registry_mirrors m data = (Inr c, l)" by simp
  with assms(1-3) rd have "docker_body config location w
      = (Inr (), w\<lparr>docker_config := Json c\<rparr>, warn @ l)"
    by (simp add: docker_body_def)
  with rd show ?thesis by (simp add: update_docker_mirror_def)
qed

lemma ex_china: "get_default_docker_mirror example_config CHINA = Inr (PStr ''https://docker.1ms.run'')"
  by (simp add: example_config_def get_default_docker_mirror_def get_default_mirror_def)

lemma ex_global: "get_default_docker_mirror example_config GLOBAL = Inr (PStr [])"
  by (simp add: example_config_def get_default_docker_mirror_def get_default_mirror_def)

lemma ex_run: "update_docker_mirror example_config CHINA example_world
    = (True, example_world\<lparr>docker_config := Json (PDict [(''experimental'', PBool True),
                                   (''registry-mirrors'', PList [PStr ''https://docker.1ms.run''])])\<rparr>,
       [(Info, ''Updated Docker registry mirror'')])"
  by (simp add: update_docker_mirror_def docker_body_def ex_china read_docker_config_def set_registry_mirrors_def example_world_def)

text \<open>
  Claim C6. Whatever the registry file was (absent, unreadable, or a JSON object), a
  write that goes through leaves a document in which \<open>registry-mirrors\<close> is absent
  when the resolved mirror is empty (false in Python's sense), and is the list holding
  exactly the resolved mirror otherwise, whatever mirrors were listed before.
\<close>

theorem registry_writer_sets_or_removes:
  assumes "docker_dir_ok w" and "docker_writable w"
    and "get_default_docker_mirror config location = Inr m"
    and "fst (read_docker_config (docker_config w)) = PDict d"
  shows "\<exists>w' msgs d'. update_docker_mirror config location w = (True, w', msgs)
           \<and> docker_config w' = Json (PDict d')
           \<and> map_of d' ''registry-mirrors'' = (if truthy m then Some (PList [m]) else None)"
proof -
  let ?d' = "if truthy m then AList.update ''registry-mirrors'' (PList [m]) d
             else AList.delete ''registry-mirrors'' d"
  obtain r l where s: "set_registry_mirrors m (PDict d) = (r, l)"
    by (cases "set_registry_mirrors m (PDict d)")
  with set_registry_mirrors_dict [of m d] have r: "r = Inr (PDict ?d')" by simp
  from s r assms(4)
  have "set_registry_mirrors m (fst (read_docker_config (docker_config w))) = (Inr (PDict ?d'), l)"
    by simp
  from update_docker_mirror_succeeds [OF assms(1-3) this]
  have "update_docker_mirror config location w
          = (True, w\<lparr>docker_config := Json (PDict ?d')\<rparr>,
             snd (read_docker_config (docker_config w)) @ l)" .
  moreover have "map_of ?d' ''registry-mirrors'' = (if truthy m then Some (PList [m]) else None)"
    by (simp add: update_conv' delete_conv')
  ultimately show ?thesis by simp
qed

theorem registry_writer_sets_or_removes_witness:
  "(\<exists>w' msgs d'. update_docker_mirror example_config CHINA example_world = (True, w', msgs)
           \<and> docker_config w' = Json (PDict d')
           \<and> map_of d' ''registry-mirrors'' = Some (PList [PStr ''https://docker.1ms.run'']))
   \<and> (\<exists>w' msgs d'. update_docker_mirror example_config GLOBAL example_world = (True, w', msgs)
           \<and> docker_config w' = Json (PDict d')
           \<and> map_of d' ''registry-mirrors'' = None)"
proof -
  have a: "docker_dir_ok example_world" and b: "docker_writable example_world"
    by (simp_all add: example_world_def)
  have c: "fst (read_docker_config (docker_config example_world))
             = PDict [(''experimental'', PBool True),
                      (''registry-mirrors'', PList [PStr ''https://a.example'', PStr ''https://b.example''])]"
    by (simp add: example_world_def read_docker_config_def)
  show ?thesis
    using registry_writer_sets_or_removes [OF a b ex_china c]
      registry_writer_sets_or_removes [OF a b ex_global c]
    by simp
qed

text \<open>
  Claim C7. For every registry file that parses, every key other than
  \<open>registry-mirrors\<close> holds after the writer ran the value it held before.
\<close>

theorem registry_writer_preserves_siblings:
  assumes "docker_config w = Json doc"
    and "update_docker_mirror config location w = (ok, w', msgs)"
  shows "\<exists>doc'. docker_config w' = Json doc'
           \<and> (\<forall>k. k \<noteq> ''registry-mirrors'' \<longrightarrow> value_at doc' k = value_at doc k)"
proof -
  from update_docker_mirror_world [OF assms(2)]
  consider "w' = w"
    | m c where "fst (set_registry_mirrors m (fst (read_docker_config (docker_config w)))) = Inr c"
        and "w' = w\<lparr>docker_config := Json c\<rparr>"
    by blast
  then show ?thesis
  proof cases
    case 1
    with assms(1) show ?thesis by simp
  next
    case 2
    from 2(1) assms(1) have "fst (set_registry_mirrors m doc) = Inr c"
      by (simp add: read_docker_config_def)
    then have "\<forall>k. k \<noteq> ''registry-mirrors'' \<longrightarrow> value_at c k = value_at doc k"
      using set_registry_mirrors_frame by blast
    with 2(2) show ?thesis by simp
  qed
qed

theorem registry_writer_preserves_siblings_witness:
  "\<exists>w' msgs doc'. update_docker_mirror example_config CHINA example_world = (True, w', msgs)
      \<and> docker_config w' = Json doc'
      \<and> value_at doc' ''experimental'' = Some (PBool True)"
proof -
  have a: "docker_config example_world
             = Json (PDict [(''experimental'', PBool True),
                            (''registry-mirrors'',
                               PList [PStr ''https://a.example'', PStr ''https://b.example''])])"
    by (simp add: example_world_def)
  from registry_writer_preserves_siblings [OF a ex_run] ex_run
  show ?thesis by (auto simp: value_at_def)
qed

text \<open>
  Claim C10. When the registry file exists but cannot be read as JSON, the writer logs
  a warning, starts from the empty configuration, and, for a non-empty resolved mirror
  and a write that goes through, leaves a document holding the \<open>registry-mirrors\<close> key
  alone; it returns true.
\<close>

theorem registry_writer_unreadable_file:
  assumes "docker_config w = Unreadable" and "docker_dir_ok w" and "docker_writable w"
    and "get_default_docker_mirror config location = Inr m" and "truthy m"
  shows "update_docker_mirror config location w
           = (True, w\<lparr>docker_config := Json (PDict [(''registry-mirrors'', PList [m])])\<rparr>,
              [(Warning, ''Failed to load existing Docker config''),
               (Info, ''Updated Docker registry mirror'')])"
proof -
  have "set_registry_mirrors m (fst (read_docker_config (docker_config w)))
          = (Inr (PDict [(''registry-mirrors'', PList [m])]), [(Info, ''Updated Docker registry mirror'')])"
    using assms(1,5) by (simp add: read_docker_config_def set_registry_mirrors_def)
  from update_docker_mirror_succeeds [OF assms(2-4) this] assms(1)
  show ?thesis by (simp add: read_docker_config_def)
qed

theorem registry_writer_unreadable_file_witness:
  "update_docker_mirror example_config CHINA (example_world\<lparr>docker_config := Unreadable\<rparr>)
     = (True,
        example_world\<lparr>docker_config :=
          Json (PDict [(''registry-mirrors'', PList [PStr ''https://docker.1ms.run''])])\<rparr>,
        [(Warning, ''Failed to load existing Docker config''),
         (Info, ''Updated Docker registry mirror'')])"
proof -
  have a: "docker_config (example_world\<lparr>docker_config := Unreadable\<rparr>) = Unreadable"
    and b: "docker_dir_ok (example_world\<lparr>docker_config := Unreadable\<rparr>)"
    and c: "docker_writable (example_world\<lparr>docker_config := Unreadable\<rparr>)"
    by (simp_all add: example_world_def)
  have t: "truthy (PStr ''https://docker.1ms.run'')" by simp
  show ?thesis
    using registry_writer_unreadable_file [OF a b c ex_china t] by simp
qed

section \<open>The package-index writer's properties\<close>

lemma flagged_dict:
  "py_get e ''default'' (PBool False) = Inr flag \<Longrightarrow> truthy flag = flagged e"
  by (cases e) (auto simp: flagged_def)






lemma set_default_url_cons:
  assumes "set_default_url m (e # es) = Inr (Some es')"
  shows "(flagged e \<and> (\<exists>e'. py_setitem ''url'' m e = Inr e' \<and> es' = e' # es))
       \<or> (\<not> flagged e \<and> (\<exists>es''. set_default_url m es = Inr (Some es'') \<and> es' = e # es''))"
proof (cases "py_get e ''default'' (PBool False)")
  case (Inl x)
  with assms show ?thesis by simp
next
  case (Inr flag)
  note fl = flagged_dict [OF Inr]
  show ?thesis
  proof (cases "truthy flag")
    case True
    with Inr assms fl show ?thesis by (auto split: sum.splits)
  next
    case False
    with Inr assms fl show ?thesis by (auto split: sum.splits option.splits)
  qed
qed


lemma set_default_url_skip:
  assumes "\<not> flagged e" and "set_default_url m (e # es) = Inr (Some es')"
  shows "\<exists>es''. set_default_url m es = Inr (Some es'') \<and> es' = e # es''"
  using set_default_url_cons [OF assms(2)] assms(1) by blast










lemma render_new_entry:
  "render_index str [PDict d] = (''[[index]]'' @ nl @ concat (map (render_item str) d), None)"
  by simp






text \<open>What the writer puts in the file for these entries. The flag of the default entry
  comes out as \<open>default = True\<close>, which is Python's spelling of the boolean.\<close>

lemma example_written:
  "render_index str example_merged
     = (''[[index]]'' @ nl @ ''name = '' @ dq @ ''extra'' @ dq @ nl
          @ ''url = '' @ dq @ ''https://extra.example/simple'' @ dq @ nl @ nl
          @ ''[[index]]'' @ nl
          @ ''url = '' @ dq @ ''https://pypi.tuna.tsinghua.edu.cn/simple'' @ dq @ nl
          @ ''default = True'' @ nl, None)"
  by (simp add: example_merged_def render_item_def)







section \<open>Both writers in a row\<close>









end
